theory Spec2Isabelle
  imports Main
begin

section \<open>Rate-limit injection (backend/src/server/plugins/inject-rate-limits.ts)\<close>

subsection \<open>Data\<close>

text \<open>
  A rate-limit object has eight thresholds. The hook only copies thresholds, it never
  computes with them, so their type is left open (\<open>'n\<close>; a JavaScript number in the
  source). At run time every field may be \<open>null\<close> or \<open>undefined\<close>: the source guards each
  one with \<open>??\<close>, which treats the two alike, so both are \<open>None\<close> here.
  The fields are listed in the order of the object literal of the source.
\<close>

record 'n rate_limits =
  readLimit :: "'n option"
  publicEndpointLimit :: "'n option"
  writeLimit :: "'n option"
  secretsLimit :: "'n option"
  authRateLimit :: "'n option"
  inviteUserRateLimit :: "'n option"
  mfaRateLimit :: "'n option"
  creationLimit :: "'n option"

text \<open>
  The part of the licence plan the hook reads: the flag \<open>customRateLimits\<close> and the
  object \<open>rateLimits\<close>, which an outdated licence may lack altogether (\<open>None\<close>).
\<close>

record 'n plan =
  customRateLimits :: bool
  rateLimits :: "'n rate_limits option"

record app_config =
  isCloud :: bool

type_synonym org_id = string

record auth =
  orgId :: org_id

text \<open>
  The request as the hook sees it: \<open>req.auth\<close> is absent on public endpoints, and
  \<open>req.rateLimits\<close> is the decoration the plugin adds, \<open>null\<close> until the hook assigns it.
\<close>

record 'n request =
  auth :: "auth option"
  rateLimits :: "'n rate_limits option"

datatype error = Error string

subsection \<open>Collaborators\<close>

text \<open>
  What lies outside the request: the environment configuration that \<open>getConfig()\<close>
  returns and the instance-wide rate limits that \<open>getRateLimiterConfig()\<close> returns.
\<close>

record 'n world =
  config :: app_config
  registry :: "'n rate_limits"

datatype call = GetConfig | GetRateLimiterConfig | GetPlan org_id

text \<open>
  The state threaded through one run of the hook: the world, the request, and a log
  of the calls the hook makes to its collaborators, oldest first.
\<close>

record 'n state =
  world :: "'n world"
  req :: "'n request"
  calls :: "call list"

text \<open>
  \<open>server.services.license.getPlan\<close> is a parameter of the model. It is awaited, so it
  either rejects (\<open>Inl\<close>) or resolves to a plan (\<open>Inr\<close>), and while the hook is suspended
  the world may change: the lookup returns the world as it is when the hook resumes.
\<close>

type_synonym 'n license_service = "org_id \<Rightarrow> 'n world \<Rightarrow> (error + 'n plan) \<times> 'n world"

definition getConfig :: "'n state \<Rightarrow> app_config \<times> 'n state" where
  "getConfig s = (config (world s), s\<lparr>calls := calls s @ [GetConfig]\<rparr>)"

text \<open>
  Modelled from the spec: \<open>getRateLimiterConfig\<close> lives in
  \<open>ee/services/rate-limit/rate-limit-service\<close>, which is not among the sources. Following
  sections 4.1 and 5 of the specification it returns the current snapshot of the
  registry, an immutable value that later updates of the registry do not alter.
\<close>

definition getRateLimiterConfig :: "'n state \<Rightarrow> 'n rate_limits \<times> 'n state" where
  "getRateLimiterConfig s = (registry (world s), s\<lparr>calls := calls s @ [GetRateLimiterConfig]\<rparr>)"

definition await_getPlan ::
  "'n license_service \<Rightarrow> org_id \<Rightarrow> 'n state \<Rightarrow> (error + 'n plan) \<times> 'n state" where
  "await_getPlan getPlan org s =
     (case getPlan org (world s) of
        (r, w) \<Rightarrow> (r, s\<lparr>world := w, calls := calls s @ [GetPlan org]\<rparr>))"

subsection \<open>JavaScript operators\<close>

text \<open>\<open>obj?.field\<close>: \<open>undefined\<close> when \<open>obj\<close> is \<open>null\<close> or \<open>undefined\<close>, else the field.\<close>

definition opt_chain :: "'a option \<Rightarrow> ('a \<Rightarrow> 'b option) \<Rightarrow> 'b option" where
  "opt_chain obj field = (case obj of None \<Rightarrow> None | Some x \<Rightarrow> field x)"

text \<open>\<open>a ?? b\<close>: \<open>b\<close> when \<open>a\<close> is \<open>null\<close> or \<open>undefined\<close>, else \<open>a\<close>.\<close>

definition nullish :: "'a option \<Rightarrow> 'a option \<Rightarrow> 'a option" where
  "nullish a b = (case a of None \<Rightarrow> b | Some v \<Rightarrow> Some v)"

subsection \<open>The plugin\<close>

text \<open>\<open>server.decorateRequest("rateLimits", null)\<close>: a request starts without rate limits.\<close>

definition decorateRequest :: "auth option \<Rightarrow> 'n request" where
  "decorateRequest a = \<lparr>auth = a, rateLimits = None\<rparr>"

text \<open>The assignment \<open>req.rateLimits = v\<close>.\<close>

definition assign_rateLimits :: "'n rate_limits \<Rightarrow> 'n state \<Rightarrow> 'n state" where
  "assign_rateLimits v s = s\<lparr>req := (req s)\<lparr>rateLimits := Some v\<rparr>\<rparr>"

text \<open>
  The \<open>onRequest\<close> hook. It returns \<open>Inr ()\<close> when the hook completes and \<open>Inl e\<close> when
  the awaited \<open>getPlan\<close> rejects with \<open>e\<close>, which the hook does not catch; either way the
  state it leaves behind is returned too.
\<close>

definition onRequest :: "'n license_service \<Rightarrow> 'n state \<Rightarrow> (error + unit) \<times> 'n state" where
  "onRequest getPlan s0 =
     (case getConfig s0 of (appCfg, s1) \<Rightarrow>
      case getRateLimiterConfig s1 of (instanceRateLimiterConfig, s2) \<Rightarrow>
        (case auth (req s2) of
           None \<Rightarrow> (Inr (), assign_rateLimits instanceRateLimiterConfig s2)
         | Some a \<Rightarrow>
             (case await_getPlan getPlan (orgId a) s2 of
                (Inl e, s3) \<Rightarrow> (Inl e, s3)
              | (Inr plan, s3) \<Rightarrow>
                  (let rateLimits = plan.rateLimits plan in
                   if customRateLimits plan \<and> \<not> isCloud appCfg
                   then (Inr (), assign_rateLimits instanceRateLimiterConfig s3)
                   else (Inr (), assign_rateLimits
                     \<lparr>readLimit =
                        nullish (opt_chain rateLimits readLimit)
                                (readLimit instanceRateLimiterConfig),
                      publicEndpointLimit =
                        nullish (opt_chain rateLimits publicEndpointLimit)
                                (publicEndpointLimit instanceRateLimiterConfig),
                      writeLimit =
                        nullish (opt_chain rateLimits writeLimit)
                                (writeLimit instanceRateLimiterConfig),
                      secretsLimit =
                        nullish (opt_chain rateLimits secretsLimit)
                                (secretsLimit instanceRateLimiterConfig),
                      authRateLimit =
                        nullish (opt_chain rateLimits authRateLimit)
                                (authRateLimit instanceRateLimiterConfig),
                      inviteUserRateLimit =
                        nullish (opt_chain rateLimits inviteUserRateLimit)
                                (inviteUserRateLimit instanceRateLimiterConfig),
                      mfaRateLimit =
                        nullish (opt_chain rateLimits mfaRateLimit)
                                (mfaRateLimit instanceRateLimiterConfig),
                      creationLimit =
                        nullish (opt_chain rateLimits creationLimit)
                                (creationLimit instanceRateLimiterConfig)\<rparr> s3)))))"

text \<open>The rate limits attached to the request once the hook has run.\<close>

definition resolved :: "'n license_service \<Rightarrow> 'n state \<Rightarrow> 'n rate_limits option" where
  "resolved getPlan s = request.rateLimits (req (snd (onRequest getPlan s)))"


subsection \<open>Observations used by the properties\<close>

text \<open>
  The eight categories, in the order of the fields, and the threshold a rate-limit
  object holds for a category.
\<close>

datatype category = Read | PublicEndpoint | Write | Secrets | Auth | InviteUser | Mfa | Creation

fun limit_of :: "category \<Rightarrow> 'n rate_limits \<Rightarrow> 'n option" where
  "limit_of Read r = readLimit r"
| "limit_of PublicEndpoint r = publicEndpointLimit r"
| "limit_of Write r = writeLimit r"
| "limit_of Secrets r = secretsLimit r"
| "limit_of Auth r = authRateLimit r"
| "limit_of InviteUser r = inviteUserRateLimit r"
| "limit_of Mfa r = mfaRateLimit r"
| "limit_of Creation r = creationLimit r"

text \<open>No threshold of the object is \<open>null\<close> or \<open>undefined\<close>.\<close>

definition fully_populated :: "'n rate_limits \<Rightarrow> bool" where
  "fully_populated r \<longleftrightarrow>
     readLimit r \<noteq> None \<and> publicEndpointLimit r \<noteq> None \<and> writeLimit r \<noteq> None \<and>
     secretsLimit r \<noteq> None \<and> authRateLimit r \<noteq> None \<and> inviteUserRateLimit r \<noteq> None \<and>
     mfaRateLimit r \<noteq> None \<and> creationLimit r \<noteq> None"

text \<open>The organisations whose plan was looked up, read off a call log.\<close>

fun plan_lookups :: "call list \<Rightarrow> org_id list" where
  "plan_lookups [] = []"
| "plan_lookups (GetPlan org # cs) = org # plan_lookups cs"
| "plan_lookups (GetConfig # cs) = plan_lookups cs"
| "plan_lookups (GetRateLimiterConfig # cs) = plan_lookups cs"

text \<open>The calls one run of the hook adds to the log.\<close>

definition new_calls :: "'n license_service \<Rightarrow> 'n state \<Rightarrow> call list" where
  "new_calls getPlan s = drop (length (calls s)) (calls (snd (onRequest getPlan s)))"

text \<open>
  The threshold a plan holds for a category: none when the plan has no \<open>rateLimits\<close>
  object, or the object has no such field.
\<close>

definition plan_limit :: "category \<Rightarrow> 'n plan \<Rightarrow> 'n option" where
  "plan_limit c p = (case plan.rateLimits p of None \<Rightarrow> None | Some rl \<Rightarrow> limit_of c rl)"


subsection \<open>Example inputs\<close>

definition example_registry :: "int rate_limits" where
  "example_registry =
     \<lparr>readLimit = Some 300, publicEndpointLimit = Some 30, writeLimit = Some 60,
      secretsLimit = Some 120, authRateLimit = Some 50, inviteUserRateLimit = Some 40,
      mfaRateLimit = Some 20, creationLimit = Some 10\<rparr>"

definition synced_registry :: "int rate_limits" where
  "synced_registry =
     \<lparr>readLimit = Some 1, publicEndpointLimit = Some 2, writeLimit = Some 3,
      secretsLimit = Some 4, authRateLimit = Some 5, inviteUserRateLimit = Some 6,
      mfaRateLimit = Some 7, creationLimit = Some 8\<rparr>"

definition partial_plan_limits :: "int rate_limits" where
  "partial_plan_limits =
     \<lparr>readLimit = Some 9999, publicEndpointLimit = None, writeLimit = None,
      secretsLimit = None, authRateLimit = None, inviteUserRateLimit = None,
      mfaRateLimit = None, creationLimit = None\<rparr>"

definition full_plan_limits :: "int rate_limits" where
  "full_plan_limits =
     \<lparr>readLimit = Some 9999, publicEndpointLimit = Some 9998, writeLimit = Some 9997,
      secretsLimit = Some 9996, authRateLimit = Some 9995, inviteUserRateLimit = Some 9994,
      mfaRateLimit = Some 9993, creationLimit = Some 9992\<rparr>"

definition example_plan :: "bool \<Rightarrow> int rate_limits option \<Rightarrow> int plan" where
  "example_plan custom limits = \<lparr>customRateLimits = custom, plan.rateLimits = limits\<rparr>"

definition example_auth :: auth where
  "example_auth = \<lparr>orgId = ''org-1''\<rparr>"

definition example_state :: "bool \<Rightarrow> auth option \<Rightarrow> int state" where
  "example_state cloud a =
     \<lparr>world = \<lparr>config = \<lparr>isCloud = cloud\<rparr>, registry = example_registry\<rparr>,
      req = decorateRequest a,
      calls = []\<rparr>"

text \<open>A licence service that answers every lookup with \<open>r\<close> and leaves the world alone.\<close>

definition stub_getPlan :: "error + 'n plan \<Rightarrow> 'n license_service" where
  "stub_getPlan r org w = (r, w)"

text \<open>
  A licence service that answers with \<open>r\<close> while the registry is replaced by \<open>reg\<close>
  during the lookup.
\<close>

definition syncing_getPlan :: "'n rate_limits \<Rightarrow> error + 'n plan \<Rightarrow> 'n license_service" where
  "syncing_getPlan reg r org w = (r, w\<lparr>registry := reg\<rparr>)"

section \<open>Properties\<close>

subsection \<open>The four ways through the hook\<close>

lemma onRequest_public:
  assumes "auth (req s) = None"
  shows "onRequest getPlan s =
    (Inr (), s\<lparr>req := (req s)\<lparr>rateLimits := Some (registry (world s))\<rparr>,
               calls := calls s @ [GetConfig, GetRateLimiterConfig]\<rparr>)"
  using assms
  by (simp add: onRequest_def getConfig_def getRateLimiterConfig_def assign_rateLimits_def)

lemma onRequest_rejected:
  assumes "auth (req s) = Some a" and "getPlan (orgId a) (world s) = (Inl e, w)"
  shows "onRequest getPlan s =
    (Inl e, s\<lparr>world := w,
              calls := calls s @ [GetConfig, GetRateLimiterConfig, GetPlan (orgId a)]\<rparr>)"
  using assms
  by (simp add: onRequest_def getConfig_def getRateLimiterConfig_def await_getPlan_def)

lemma onRequest_override:
  assumes "auth (req s) = Some a" and "getPlan (orgId a) (world s) = (Inr p, w)"
    and "customRateLimits p" and "\<not> isCloud (config (world s))"
  shows "onRequest getPlan s =
    (Inr (), s\<lparr>world := w,
               req := (req s)\<lparr>rateLimits := Some (registry (world s))\<rparr>,
               calls := calls s @ [GetConfig, GetRateLimiterConfig, GetPlan (orgId a)]\<rparr>)"
  using assms
  by (simp add: onRequest_def getConfig_def getRateLimiterConfig_def await_getPlan_def
      assign_rateLimits_def)

lemma onRequest_merged:
  assumes "auth (req s) = Some a" and "getPlan (orgId a) (world s) = (Inr p, w)"
    and "\<not> customRateLimits p \<or> isCloud (config (world s))"
  shows "onRequest getPlan s =
    (Inr (), s\<lparr>world := w,
               req := (req s)\<lparr>rateLimits := Some
                 \<lparr>readLimit = nullish (opt_chain (plan.rateLimits p) readLimit)
                    (readLimit (registry (world s))),
                  publicEndpointLimit = nullish (opt_chain (plan.rateLimits p) publicEndpointLimit)
                    (publicEndpointLimit (registry (world s))),
                  writeLimit = nullish (opt_chain (plan.rateLimits p) writeLimit)
                    (writeLimit (registry (world s))),
                  secretsLimit = nullish (opt_chain (plan.rateLimits p) secretsLimit)
                    (secretsLimit (registry (world s))),
                  authRateLimit = nullish (opt_chain (plan.rateLimits p) authRateLimit)
                    (authRateLimit (registry (world s))),
                  inviteUserRateLimit = nullish (opt_chain (plan.rateLimits p) inviteUserRateLimit)
                    (inviteUserRateLimit (registry (world s))),
                  mfaRateLimit = nullish (opt_chain (plan.rateLimits p) mfaRateLimit)
                    (mfaRateLimit (registry (world s))),
                  creationLimit = nullish (opt_chain (plan.rateLimits p) creationLimit)
                    (creationLimit (registry (world s)))\<rparr>\<rparr>,
               calls := calls s @ [GetConfig, GetRateLimiterConfig, GetPlan (orgId a)]\<rparr>)"
  using assms
  by (auto simp add: onRequest_def getConfig_def getRateLimiterConfig_def await_getPlan_def
      assign_rateLimits_def Let_def)

text \<open>Every run takes one of the four ways.\<close>

lemma onRequest_cases:
  obtains (public) "auth (req s) = None"
  | (rejected) a e w where "auth (req s) = Some a" "getPlan (orgId a) (world s) = (Inl e, w)"
  | (override) a p w where "auth (req s) = Some a" "getPlan (orgId a) (world s) = (Inr p, w)"
      "customRateLimits p" "\<not> isCloud (config (world s))"
  | (merged) a p w where "auth (req s) = Some a" "getPlan (orgId a) (world s) = (Inr p, w)"
      "\<not> customRateLimits p \<or> isCloud (config (world s))"
proof (cases "auth (req s)")
  case None
  then show ?thesis by (rule public)
next
  case (Some a)
  obtain r w where g: "getPlan (orgId a) (world s) = (r, w)"
    by (cases "getPlan (orgId a) (world s)")
  show ?thesis
  proof (cases r)
    case (Inl e)
    with Some g show ?thesis by (auto intro: rejected)
  next
    case (Inr p)
    with Some g show ?thesis by (cases "customRateLimits p \<and> \<not> isCloud (config (world s))")
      (auto intro: override merged)
  qed
qed

lemma merged_limit:
  "limit_of c
     \<lparr>readLimit = nullish (opt_chain l readLimit) (readLimit r),
      publicEndpointLimit = nullish (opt_chain l publicEndpointLimit) (publicEndpointLimit r),
      writeLimit = nullish (opt_chain l writeLimit) (writeLimit r),
      secretsLimit = nullish (opt_chain l secretsLimit) (secretsLimit r),
      authRateLimit = nullish (opt_chain l authRateLimit) (authRateLimit r),
      inviteUserRateLimit = nullish (opt_chain l inviteUserRateLimit) (inviteUserRateLimit r),
      mfaRateLimit = nullish (opt_chain l mfaRateLimit) (mfaRateLimit r),
      creationLimit = nullish (opt_chain l creationLimit) (creationLimit r)\<rparr> =
   (case l of
      None \<Rightarrow> limit_of c r
    | Some rl \<Rightarrow> (case limit_of c rl of None \<Rightarrow> limit_of c r | Some v \<Rightarrow> Some v))"
  by (cases c) (simp_all add: nullish_def opt_chain_def split: option.splits)

lemma new_calls_eq:
  "new_calls getPlan s =
     [GetConfig, GetRateLimiterConfig] @
     (case auth (req s) of None \<Rightarrow> [] | Some a \<Rightarrow> [GetPlan (orgId a)])"
proof (cases rule: onRequest_cases [where s = s and getPlan = getPlan])
  case public
  then show ?thesis by (simp add: new_calls_def onRequest_public)
next
  case (rejected a e w)
  then show ?thesis by (simp add: new_calls_def onRequest_rejected [where getPlan = getPlan, OF rejected])
next
  case (override a p w)
  then show ?thesis by (simp add: new_calls_def onRequest_override [where getPlan = getPlan, OF override])
next
  case (merged a p w)
  then show ?thesis by (simp add: new_calls_def onRequest_merged [where getPlan = getPlan, OF merged])
qed


subsection \<open>Public requests\<close>

text \<open>
  C1. A request without auth context completes, and its rate limits are the registry
  snapshot, unchanged, whatever the licence service would have answered.
\<close>

theorem C1_public_request_gets_registry:
  assumes "auth (req s) = None"
  shows "fst (onRequest getPlan s) = Inr () \<and> resolved getPlan s = Some (registry (world s))"
  using onRequest_public [OF assms, where getPlan = getPlan] by (simp add: resolved_def)

theorem C1_public_request_witness:
  "auth (req (example_state False None)) = None \<and>
   fst (onRequest (stub_getPlan (Inr (example_plan False (Some full_plan_limits))))
          (example_state False None)) = Inr () \<and>
   resolved (stub_getPlan (Inr (example_plan False (Some full_plan_limits))))
     (example_state False None) = Some example_registry"
proof -
  have h: "auth (req (example_state False None)) = None"
    by (simp add: example_state_def decorateRequest_def)
  show ?thesis
    using h C1_public_request_gets_registry [OF h,
        where getPlan = "stub_getPlan (Inr (example_plan False (Some full_plan_limits)))"]
    by (simp add: example_state_def)
qed

subsection \<open>Self-hosted instances with custom rate limits\<close>

text \<open>
  C2. An authenticated request whose plan has \<open>customRateLimits\<close> set, on an instance
  that is not the cloud, completes with the registry snapshot unchanged, whatever
  \<open>plan.rateLimits\<close> holds.
\<close>

theorem C2_self_hosted_custom_gets_registry:
  assumes "auth (req s) = Some a" and "getPlan (orgId a) (world s) = (Inr p, w)"
    and "customRateLimits p" and "\<not> isCloud (config (world s))"
  shows "fst (onRequest getPlan s) = Inr () \<and> resolved getPlan s = Some (registry (world s))"
  using onRequest_override [where getPlan = getPlan, OF assms] by (simp add: resolved_def)

theorem C2_self_hosted_custom_witness:
  "auth (req (example_state False (Some example_auth))) = Some example_auth \<and>
   customRateLimits (example_plan True (Some full_plan_limits)) \<and>
   \<not> isCloud (config (world (example_state False (Some example_auth)))) \<and>
   resolved (stub_getPlan (Inr (example_plan True (Some full_plan_limits))))
     (example_state False (Some example_auth)) = Some example_registry \<and>
   example_registry \<noteq> full_plan_limits"
proof -
  let ?s = "example_state False (Some example_auth)"
  let ?p = "example_plan True (Some full_plan_limits)"
  have h1: "auth (req ?s) = Some example_auth"
    by (simp add: example_state_def decorateRequest_def)
  have h2: "stub_getPlan (Inr ?p) (orgId example_auth) (world ?s) = (Inr ?p, world ?s)"
    by (simp add: stub_getPlan_def)
  have h3: "customRateLimits ?p"
    by (simp add: example_plan_def)
  have h4: "\<not> isCloud (config (world ?s))"
    by (simp add: example_state_def)
  have "example_registry \<noteq> full_plan_limits"
    by (simp add: example_registry_def full_plan_limits_def)
  then show ?thesis
    using h1 h3 h4 C2_self_hosted_custom_gets_registry [where getPlan = "stub_getPlan (Inr ?p)", OF h1 h2 h3 h4]
    by (simp add: example_state_def)
qed

subsection \<open>The merge of plan and registry\<close>

text \<open>
  C3. An authenticated request whose plan has \<open>customRateLimits\<close> unset, or that runs
  on the cloud, completes, and for each category on its own the resolved threshold is
  the one of \<open>plan.rateLimits\<close> when that is present and not null, and the one of the
  registry snapshot otherwise.
\<close>

theorem C3_plan_merged_per_category:
  assumes "auth (req s) = Some a" and "getPlan (orgId a) (world s) = (Inr p, w)"
    and "\<not> customRateLimits p \<or> isCloud (config (world s))"
  shows "fst (onRequest getPlan s) = Inr () \<and>
    (\<exists>out. resolved getPlan s = Some out \<and>
      (\<forall>c. limit_of c out =
        (case plan.rateLimits p of
           None \<Rightarrow> limit_of c (registry (world s))
         | Some rl \<Rightarrow>
             (case limit_of c rl of
                None \<Rightarrow> limit_of c (registry (world s))
              | Some v \<Rightarrow> Some v))))"
  using onRequest_merged [where getPlan = getPlan, OF assms]
  by (simp add: resolved_def merged_limit)

theorem C3_plan_merged_witness:
  "auth (req (example_state True (Some example_auth))) = Some example_auth \<and>
   isCloud (config (world (example_state True (Some example_auth)))) \<and>
   (\<exists>out. resolved (stub_getPlan (Inr (example_plan True (Some partial_plan_limits))))
            (example_state True (Some example_auth)) = Some out \<and>
      limit_of Read out = Some 9999 \<and> limit_of Write out = Some 60)"
proof -
  let ?s = "example_state True (Some example_auth)"
  let ?p = "example_plan True (Some partial_plan_limits)"
  have h1: "auth (req ?s) = Some example_auth"
    by (simp add: example_state_def decorateRequest_def)
  have h2: "stub_getPlan (Inr ?p) (orgId example_auth) (world ?s) = (Inr ?p, world ?s)"
    by (simp add: stub_getPlan_def)
  have cloud: "isCloud (config (world ?s))"
    by (simp add: example_state_def)
  then have h3: "\<not> customRateLimits ?p \<or> isCloud (config (world ?s))" ..
  from C3_plan_merged_per_category [where getPlan = "stub_getPlan (Inr ?p)", OF h1 h2 h3]
  obtain out where out: "resolved (stub_getPlan (Inr ?p)) ?s = Some out"
    and each: "\<And>c. limit_of c out =
        (case plan.rateLimits ?p of
           None \<Rightarrow> limit_of c (registry (world ?s))
         | Some rl \<Rightarrow>
             (case limit_of c rl of
                None \<Rightarrow> limit_of c (registry (world ?s))
              | Some v \<Rightarrow> Some v))"
    by blast
  have "limit_of Read out = Some 9999"
    using each [of Read] by (simp add: example_plan_def partial_plan_limits_def)
  moreover have "limit_of Write out = Some 60"
    using each [of Write]
    by (simp add: example_plan_def partial_plan_limits_def example_state_def example_registry_def)
  ultimately show ?thesis
    using h1 cloud out by blast
qed


subsection \<open>Completeness of the output\<close>

text \<open>
  C4. Whenever the registry snapshot holds a threshold for every category, and the
  request is either public or has a plan (whatever fields of the plan are missing or
  null), the hook completes and the rate limits it attaches hold a threshold for
  every one of the eight categories.
\<close>

theorem C4_output_fully_populated:
  assumes "fully_populated (registry (world s))"
    and "auth (req s) = None \<or>
         (\<exists>a p w. auth (req s) = Some a \<and> getPlan (orgId a) (world s) = (Inr p, w))"
  shows "fst (onRequest getPlan s) = Inr () \<and>
         (\<exists>out. resolved getPlan s = Some out \<and> fully_populated out)"
proof (cases rule: onRequest_cases [where s = s and getPlan = getPlan])
  case public
  with assms(1) show ?thesis
    by (simp add: resolved_def onRequest_public)
next
  case (rejected a e w)
  with assms(2) show ?thesis by simp
next
  case (override a p w)
  with assms(1) show ?thesis
    by (simp add: resolved_def onRequest_override [where getPlan = getPlan, OF override])
next
  case (merged a p w)
  with assms(1) show ?thesis
    by (simp add: resolved_def onRequest_merged [where getPlan = getPlan, OF merged]
        fully_populated_def nullish_def split: option.splits)
qed

theorem C4_output_fully_populated_witness:
  "fully_populated (registry (world (example_state True (Some example_auth)))) \<and>
   auth (req (example_state True (Some example_auth))) = Some example_auth \<and>
   \<not> fully_populated partial_plan_limits \<and>
   fst (onRequest (stub_getPlan (Inr (example_plan False (Some partial_plan_limits))))
          (example_state True (Some example_auth))) = Inr () \<and>
   (\<exists>out. resolved (stub_getPlan (Inr (example_plan False (Some partial_plan_limits))))
            (example_state True (Some example_auth)) = Some out \<and>
      fully_populated out)"
proof -
  let ?s = "example_state True (Some example_auth)"
  let ?p = "example_plan False (Some partial_plan_limits)"
  have h1: "fully_populated (registry (world ?s))"
    by (simp add: example_state_def example_registry_def fully_populated_def)
  have a: "auth (req ?s) = Some example_auth"
    by (simp add: example_state_def decorateRequest_def)
  have g: "stub_getPlan (Inr ?p) (orgId example_auth) (world ?s) = (Inr ?p, world ?s)"
    by (simp add: stub_getPlan_def)
  have h2: "auth (req ?s) = None \<or>
      (\<exists>a p w. auth (req ?s) = Some a \<and>
         stub_getPlan (Inr ?p) (orgId a) (world ?s) = (Inr p, w))"
    using a g by blast
  have "\<not> fully_populated partial_plan_limits"
    by (simp add: partial_plan_limits_def fully_populated_def)
  then show ?thesis
    using h1 a C4_output_fully_populated [where getPlan = "stub_getPlan (Inr ?p)", OF h1 h2]
    by blast
qed

subsection \<open>Determinism\<close>

text \<open>
  C5. Two runs of the hook on the same request, with the same registry snapshot, the
  same \<open>isCloud\<close> flag and the same answer of the licence service for the request's
  organisation, end alike and attach the same rate limits. Nothing else the runs may
  differ in (the call log, what else the licence service does) has an influence.
\<close>

theorem C5_deterministic:
  assumes "req s = req s'"
    and "registry (world s) = registry (world s')"
    and "isCloud (config (world s)) = isCloud (config (world s'))"
    and "\<And>a. auth (req s) = Some a \<Longrightarrow>
           fst (getPlan (orgId a) (world s)) = fst (getPlan' (orgId a) (world s'))"
  shows "fst (onRequest getPlan s) = fst (onRequest getPlan' s') \<and>
         resolved getPlan s = resolved getPlan' s'"
proof (cases rule: onRequest_cases [where s = s and getPlan = getPlan])
  case public
  then have "auth (req s') = None"
    using assms(1) by simp
  with public assms(1,2) show ?thesis
    by (simp add: resolved_def onRequest_public)
next
  case (rejected a e w)
  then have a': "auth (req s') = Some a"
    using assms(1) by simp
  obtain w' where g': "getPlan' (orgId a) (world s') = (Inl e, w')"
    using assms(4) [OF rejected(1)] rejected(2) by (cases "getPlan' (orgId a) (world s')") simp
  show ?thesis
    using assms(1)
    by (simp add: resolved_def onRequest_rejected [where getPlan = getPlan, OF rejected]
        onRequest_rejected [where getPlan = getPlan', OF a' g'])
next
  case (override a p w)
  then have a': "auth (req s') = Some a"
    using assms(1) by simp
  obtain w' where g': "getPlan' (orgId a) (world s') = (Inr p, w')"
    using assms(4) [OF override(1)] override(2) by (cases "getPlan' (orgId a) (world s')") simp
  have c': "\<not> isCloud (config (world s'))"
    using override(4) assms(3) by simp
  show ?thesis
    using assms(1,2)
    by (simp add: resolved_def onRequest_override [where getPlan = getPlan, OF override]
        onRequest_override [where getPlan = getPlan', OF a' g' override(3) c'])
next
  case (merged a p w)
  then have a': "auth (req s') = Some a"
    using assms(1) by simp
  obtain w' where g': "getPlan' (orgId a) (world s') = (Inr p, w')"
    using assms(4) [OF merged(1)] merged(2) by (cases "getPlan' (orgId a) (world s')") simp
  have c': "\<not> customRateLimits p \<or> isCloud (config (world s'))"
    using merged(3) assms(3) by simp
  show ?thesis
    using assms(1,2)
    by (simp add: resolved_def onRequest_merged [where getPlan = getPlan, OF merged]
        onRequest_merged [where getPlan = getPlan', OF a' g' c'])
qed

theorem C5_deterministic_witness:
  "req (example_state True (Some example_auth)) =
     req ((example_state True (Some example_auth))\<lparr>calls := [GetConfig]\<rparr>) \<and>
   fst (onRequest (stub_getPlan (Inr (example_plan True (Some partial_plan_limits))))
          (example_state True (Some example_auth))) =
   fst (onRequest (syncing_getPlan synced_registry
                     (Inr (example_plan True (Some partial_plan_limits))))
          ((example_state True (Some example_auth))\<lparr>calls := [GetConfig]\<rparr>)) \<and>
   resolved (stub_getPlan (Inr (example_plan True (Some partial_plan_limits))))
     (example_state True (Some example_auth)) =
   resolved (syncing_getPlan synced_registry
               (Inr (example_plan True (Some partial_plan_limits))))
     ((example_state True (Some example_auth))\<lparr>calls := [GetConfig]\<rparr>)"
proof -
  let ?s = "example_state True (Some example_auth)"
  let ?s' = "?s\<lparr>calls := [GetConfig]\<rparr>"
  let ?r = "Inr (example_plan True (Some partial_plan_limits))"
  have h1: "req ?s = req ?s'" by simp
  have h2: "registry (world ?s) = registry (world ?s')" by simp
  have h3: "isCloud (config (world ?s)) = isCloud (config (world ?s'))" by simp
  have h4: "fst (stub_getPlan ?r (orgId a) (world ?s)) =
            fst (syncing_getPlan synced_registry ?r (orgId a) (world ?s'))" for a
    by (simp add: stub_getPlan_def syncing_getPlan_def)
  show ?thesis
    using h1 C5_deterministic [where getPlan = "stub_getPlan ?r"
        and getPlan' = "syncing_getPlan synced_registry ?r", OF h1 h2 h3 h4]
    by blast
qed


subsection \<open>Failure of the plan lookup\<close>

text \<open>
  C6. When the licence service rejects the lookup for an authenticated request, the
  hook ends with that very error and leaves the request as it found it: no rate
  limits are attached, neither the registry's nor any other.
\<close>

theorem C6_getPlan_failure_propagates:
  assumes "auth (req s) = Some a" and "getPlan (orgId a) (world s) = (Inl e, w)"
  shows "fst (onRequest getPlan s) = Inl e \<and>
         req (snd (onRequest getPlan s)) = req s \<and>
         resolved getPlan s = request.rateLimits (req s)"
  using onRequest_rejected [where getPlan = getPlan, OF assms] by (simp add: resolved_def)

theorem C6_getPlan_failure_witness:
  "auth (req (example_state True (Some example_auth))) = Some example_auth \<and>
   fst (onRequest (stub_getPlan (Inl (Error ''license server unreachable'')))
          (example_state True (Some example_auth))) = Inl (Error ''license server unreachable'') \<and>
   resolved (stub_getPlan (Inl (Error ''license server unreachable'')))
     (example_state True (Some example_auth)) = None"
proof -
  let ?s = "example_state True (Some example_auth)"
  let ?e = "Error ''license server unreachable''"
  have h1: "auth (req ?s) = Some example_auth"
    by (simp add: example_state_def decorateRequest_def)
  have h2: "stub_getPlan (Inl ?e) (orgId example_auth) (world ?s) = (Inl ?e, world ?s)"
    by (simp add: stub_getPlan_def)
  have "request.rateLimits (req ?s) = None"
    by (simp add: example_state_def decorateRequest_def)
  then show ?thesis
    using h1 C6_getPlan_failure_propagates [where getPlan = "stub_getPlan (Inl ?e)", OF h1 h2]
    by simp
qed

subsection \<open>Plans without rate limits\<close>

text \<open>
  C7. For an authenticated request whose plan has \<open>customRateLimits\<close> unset and no
  \<open>rateLimits\<close> object at all, the hook completes and the attached rate limits are the
  registry snapshot.
\<close>

theorem C7_missing_plan_limits_fall_back:
  assumes "auth (req s) = Some a" and "getPlan (orgId a) (world s) = (Inr p, w)"
    and "\<not> customRateLimits p" and "plan.rateLimits p = None"
  shows "fst (onRequest getPlan s) = Inr () \<and> resolved getPlan s = Some (registry (world s))"
proof -
  have "\<not> customRateLimits p \<or> isCloud (config (world s))"
    using assms(3) ..
  from onRequest_merged [where getPlan = getPlan, OF assms(1,2) this] assms(4)
  show ?thesis
    by (simp add: resolved_def nullish_def opt_chain_def)
qed

theorem C7_missing_plan_limits_witness:
  "auth (req (example_state False (Some example_auth))) = Some example_auth \<and>
   \<not> customRateLimits (example_plan False None) \<and>
   plan.rateLimits (example_plan False None) = None \<and>
   fst (onRequest (stub_getPlan (Inr (example_plan False None)))
          (example_state False (Some example_auth))) = Inr () \<and>
   resolved (stub_getPlan (Inr (example_plan False None)))
     (example_state False (Some example_auth)) = Some example_registry"
proof -
  let ?s = "example_state False (Some example_auth)"
  let ?p = "example_plan False None"
  have h1: "auth (req ?s) = Some example_auth"
    by (simp add: example_state_def decorateRequest_def)
  have h2: "stub_getPlan (Inr ?p) (orgId example_auth) (world ?s) = (Inr ?p, world ?s)"
    by (simp add: stub_getPlan_def)
  have h3: "\<not> customRateLimits ?p"
    by (simp add: example_plan_def)
  have h4: "plan.rateLimits ?p = None"
    by (simp add: example_plan_def)
  have "registry (world ?s) = example_registry"
    by (simp add: example_state_def)
  then show ?thesis
    using h1 h3 h4
      C7_missing_plan_limits_fall_back [where getPlan = "stub_getPlan (Inr ?p)", OF h1 h2 h3 h4]
    by simp
qed

subsection \<open>When the plan is looked up\<close>

text \<open>
  C8. The hook looks up a plan exactly when the request is authenticated, and then
  once, for the organisation of the request. For a public request no lookup is made:
  the run is the same whatever the licence service is, and the world is untouched.
  For an authenticated request the lookup is really made: the world the hook leaves
  behind is the one the licence service returned for the organisation of the request,
  and the hook ends with an error exactly when the lookup was rejected, with that
  error.
\<close>

theorem C8_getPlan_iff_authenticated:
  "plan_lookups (new_calls getPlan s) =
     (case auth (req s) of None \<Rightarrow> [] | Some a \<Rightarrow> [orgId a]) \<and>
   ((\<exists>org. GetPlan org \<in> set (new_calls getPlan s)) \<longleftrightarrow> auth (req s) \<noteq> None) \<and>
   (auth (req s) = None \<longrightarrow>
      onRequest getPlan s = onRequest getPlan' s \<and>
      world (snd (onRequest getPlan s)) = world s) \<and>
   (\<forall>a. auth (req s) = Some a \<longrightarrow>
      world (snd (onRequest getPlan s)) = snd (getPlan (orgId a) (world s)) \<and>
      fst (onRequest getPlan s) =
        (case fst (getPlan (orgId a) (world s)) of Inl e \<Rightarrow> Inl e | Inr p \<Rightarrow> Inr ()))"
proof (cases rule: onRequest_cases [where s = s and getPlan = getPlan])
  case public
  then show ?thesis
    by (simp add: new_calls_eq onRequest_public)
next
  case (rejected a e w)
  then show ?thesis
    by (simp add: new_calls_eq onRequest_rejected [where getPlan = getPlan, OF rejected])
next
  case (override a p w)
  then show ?thesis
    by (simp add: new_calls_eq onRequest_override [where getPlan = getPlan, OF override])
next
  case (merged a p w)
  then show ?thesis
    by (simp add: new_calls_eq onRequest_merged [where getPlan = getPlan, OF merged])
qed

theorem C8_getPlan_iff_authenticated_witness:
  "auth (req (example_state True None)) = None \<and>
   plan_lookups (new_calls (stub_getPlan (Inl (Error ''unreachable''))) (example_state True None)) = [] \<and>
   onRequest (stub_getPlan (Inl (Error ''unreachable''))) (example_state True None) =
   onRequest (syncing_getPlan synced_registry (Inr (example_plan False None)))
     (example_state True None) \<and>
   world (snd (onRequest (syncing_getPlan synced_registry (Inr (example_plan False None)))
                 (example_state True None))) =
     \<lparr>config = \<lparr>isCloud = True\<rparr>, registry = example_registry\<rparr> \<and>
   auth (req (example_state True (Some example_auth))) = Some example_auth \<and>
   plan_lookups (new_calls (syncing_getPlan synced_registry (Inr (example_plan False None)))
                   (example_state True (Some example_auth))) = [''org-1''] \<and>
   world (snd (onRequest (syncing_getPlan synced_registry (Inr (example_plan False None)))
                 (example_state True (Some example_auth)))) =
     \<lparr>config = \<lparr>isCloud = True\<rparr>, registry = synced_registry\<rparr> \<and>
   fst (onRequest (syncing_getPlan synced_registry (Inr (example_plan False None)))
          (example_state True (Some example_auth))) = Inr () \<and>
   fst (onRequest (stub_getPlan (Inl (Error ''unreachable'')))
          (example_state True (Some example_auth))) = Inl (Error ''unreachable'')"
proof -
  let ?pub = "example_state True None"
  let ?s = "example_state True (Some example_auth)"
  let ?fail = "stub_getPlan (Inl (Error ''unreachable'')) :: int license_service"
  let ?sync = "syncing_getPlan synced_registry (Inr (example_plan False None))"
  have pub: "auth (req ?pub) = None"
    by (simp add: example_state_def decorateRequest_def)
  have a: "auth (req ?s) = Some example_auth"
    by (simp add: example_state_def decorateRequest_def)
  have w_pub: "world ?pub = \<lparr>config = \<lparr>isCloud = True\<rparr>, registry = example_registry\<rparr>"
    by (simp add: example_state_def)
  have g_sync: "?sync (orgId example_auth) (world ?s) =
      (Inr (example_plan False None),
       \<lparr>config = \<lparr>isCloud = True\<rparr>, registry = synced_registry\<rparr>)"
    by (simp add: syncing_getPlan_def example_state_def)
  have g_fail: "?fail (orgId example_auth) (world ?s) = (Inl (Error ''unreachable''), world ?s)"
    by (simp add: stub_getPlan_def)
  have org: "orgId example_auth = ''org-1''"
    by (simp add: example_auth_def)
  note public_run = C8_getPlan_iff_authenticated [where getPlan = ?sync and getPlan' = ?fail
      and s = ?pub]
  note failed_public_run = C8_getPlan_iff_authenticated [where getPlan = ?fail
      and getPlan' = ?sync and s = ?pub]
  note sync_run = C8_getPlan_iff_authenticated [where getPlan = ?sync and getPlan' = ?fail
      and s = ?s]
  note failed_run = C8_getPlan_iff_authenticated [where getPlan = ?fail and getPlan' = ?sync
      and s = ?s]
  have 1: "plan_lookups (new_calls ?fail ?pub) = []"
    using failed_public_run pub by simp
  have 2: "onRequest ?fail ?pub = onRequest ?sync ?pub"
    using failed_public_run pub by simp
  from public_run pub have "world (snd (onRequest ?sync ?pub)) = world ?pub"
    by blast
  with w_pub have 3: "world (snd (onRequest ?sync ?pub)) =
      \<lparr>config = \<lparr>isCloud = True\<rparr>, registry = example_registry\<rparr>"
    by simp
  have 4: "plan_lookups (new_calls ?sync ?s) = [''org-1'']"
    using sync_run a org by simp
  have 5: "world (snd (onRequest ?sync ?s)) =
      \<lparr>config = \<lparr>isCloud = True\<rparr>, registry = synced_registry\<rparr>"
    using sync_run a g_sync by simp
  have 6: "fst (onRequest ?sync ?s) = Inr ()"
    using sync_run a g_sync by simp
  have 7: "fst (onRequest ?fail ?s) = Inl (Error ''unreachable'')"
    using failed_run a g_fail by simp
  from pub a 1 2 3 4 5 6 7 show ?thesis
    by blast
qed


subsection \<open>The cloud ignores the entitlement flag\<close>

text \<open>
  C9. On the cloud, two runs for an authenticated request that differ only in the
  \<open>customRateLimits\<close> flag of the plan end alike and attach the same rate limits.
\<close>

theorem C9_cloud_ignores_customRateLimits:
  assumes "isCloud (config (world s))"
    and "auth (req s) = Some a"
    and "getPlan (orgId a) (world s) = (Inr p, w)"
    and "getPlan' (orgId a) (world s) = (Inr (p\<lparr>customRateLimits := b\<rparr>), w')"
  shows "fst (onRequest getPlan s) = fst (onRequest getPlan' s) \<and>
         resolved getPlan s = resolved getPlan' s"
proof -
  have c: "\<not> customRateLimits p \<or> isCloud (config (world s))"
    using assms(1) ..
  have c': "\<not> customRateLimits (p\<lparr>customRateLimits := b\<rparr>) \<or> isCloud (config (world s))"
    using assms(1) ..
  show ?thesis
    by (simp add: resolved_def onRequest_merged [where getPlan = getPlan, OF assms(2,3) c]
        onRequest_merged [where getPlan = getPlan', OF assms(2,4) c'])
qed

theorem C9_cloud_ignores_customRateLimits_witness:
  "isCloud (config (world (example_state True (Some example_auth)))) \<and>
   auth (req (example_state True (Some example_auth))) = Some example_auth \<and>
   example_plan True (Some partial_plan_limits) =
     (example_plan False (Some partial_plan_limits))\<lparr>customRateLimits := True\<rparr> \<and>
   fst (onRequest (stub_getPlan (Inr (example_plan False (Some partial_plan_limits))))
          (example_state True (Some example_auth))) =
   fst (onRequest (stub_getPlan (Inr (example_plan True (Some partial_plan_limits))))
          (example_state True (Some example_auth))) \<and>
   resolved (stub_getPlan (Inr (example_plan False (Some partial_plan_limits))))
     (example_state True (Some example_auth)) =
   resolved (stub_getPlan (Inr (example_plan True (Some partial_plan_limits))))
     (example_state True (Some example_auth))"
proof -
  let ?s = "example_state True (Some example_auth)"
  let ?p = "example_plan False (Some partial_plan_limits)"
  let ?q = "example_plan True (Some partial_plan_limits)"
  have h1: "isCloud (config (world ?s))"
    by (simp add: example_state_def)
  have h2: "auth (req ?s) = Some example_auth"
    by (simp add: example_state_def decorateRequest_def)
  have q: "?q = ?p\<lparr>customRateLimits := True\<rparr>"
    by (simp add: example_plan_def)
  have h3: "stub_getPlan (Inr ?p) (orgId example_auth) (world ?s) = (Inr ?p, world ?s)"
    by (simp add: stub_getPlan_def)
  have h4: "stub_getPlan (Inr ?q) (orgId example_auth) (world ?s) =
            (Inr (?p\<lparr>customRateLimits := True\<rparr>), world ?s)"
    by (simp add: stub_getPlan_def example_plan_def)
  show ?thesis
    using h1 h2 q
      C9_cloud_ignores_customRateLimits [where getPlan = "stub_getPlan (Inr ?p)"
        and getPlan' = "stub_getPlan (Inr ?q)", OF h1 h2 h3 h4]
    by blast
qed

subsection \<open>One snapshot of the registry\<close>

text \<open>
  C10. One run of the hook reads the registry exactly once, right after the
  configuration and before any plan lookup, and whatever of the registry reaches the
  request comes from that one snapshot, even if the registry has been replaced while
  the hook waited for the plan: for a public request, and for a plan with
  \<open>customRateLimits\<close> on an instance that is not the cloud, the attached rate limits are
  the snapshot as a whole; otherwise every category for which the plan holds no
  threshold is the snapshot's, and every other category is the plan's. The snapshot
  is the value \<open>getRateLimiterConfig\<close> returned, immutable as the specification has it.
\<close>

theorem C10_single_registry_snapshot:
  "(\<exists>rest. new_calls getPlan s = [GetConfig, GetRateLimiterConfig] @ rest \<and>
       GetRateLimiterConfig \<notin> set rest) \<and>
   (auth (req s) = None \<longrightarrow> resolved getPlan s = Some (registry (world s))) \<and>
   (\<forall>a p w. auth (req s) = Some a \<and> getPlan (orgId a) (world s) = (Inr p, w) \<longrightarrow>
      (\<exists>out. resolved getPlan s = Some out \<and>
         (customRateLimits p \<and> \<not> isCloud (config (world s)) \<longrightarrow>
            out = registry (world s)) \<and>
         (\<not> (customRateLimits p \<and> \<not> isCloud (config (world s))) \<longrightarrow>
            (\<forall>c. limit_of c out =
               (if plan_limit c p = None then limit_of c (registry (world s))
                else plan_limit c p)))))"
proof (cases rule: onRequest_cases [where s = s and getPlan = getPlan])
  case public
  then show ?thesis
    by (simp add: new_calls_eq resolved_def onRequest_public)
next
  case (rejected a e w)
  then show ?thesis
    by (simp add: new_calls_eq)
next
  case (override a p w)
  then show ?thesis
    by (simp add: new_calls_eq resolved_def
        onRequest_override [where getPlan = getPlan, OF override])
next
  case (merged a p w)
  then show ?thesis
    by (auto simp add: new_calls_eq resolved_def plan_limit_def merged_limit
        onRequest_merged [where getPlan = getPlan, OF merged] split: option.splits)
qed

theorem C10_single_registry_snapshot_witness:
  "registry (world (snd (onRequest (syncing_getPlan synced_registry
                     (Inr (example_plan False (Some partial_plan_limits))))
          (example_state True (Some example_auth))))) = synced_registry \<and>
   (\<exists>rest. new_calls (syncing_getPlan synced_registry
                         (Inr (example_plan False (Some partial_plan_limits))))
              (example_state True (Some example_auth)) =
            [GetConfig, GetRateLimiterConfig] @ rest \<and>
          GetRateLimiterConfig \<notin> set rest) \<and>
   (\<exists>out. resolved (syncing_getPlan synced_registry
                       (Inr (example_plan False (Some partial_plan_limits))))
            (example_state True (Some example_auth)) = Some out \<and>
      limit_of Read out = Some 9999 \<and> limit_of Write out = Some 60 \<and>
      limit_of Write synced_registry = Some 3) \<and>
   customRateLimits (example_plan True (Some full_plan_limits)) \<and>
   \<not> isCloud (config (world (example_state False (Some example_auth)))) \<and>
   resolved (syncing_getPlan synced_registry (Inr (example_plan True (Some full_plan_limits))))
     (example_state False (Some example_auth)) = Some example_registry \<and>
   example_registry \<noteq> synced_registry \<and> example_registry \<noteq> full_plan_limits"
proof -
  let ?s = "example_state True (Some example_auth)"
  let ?p = "example_plan False (Some partial_plan_limits)"
  let ?g = "syncing_getPlan synced_registry (Inr ?p)"
  let ?s' = "example_state False (Some example_auth)"
  let ?p' = "example_plan True (Some full_plan_limits)"
  let ?g' = "syncing_getPlan synced_registry (Inr ?p')"
  have a: "auth (req ?s) = Some example_auth"
    by (simp add: example_state_def decorateRequest_def)
  have g: "?g (orgId example_auth) (world ?s) =
           (Inr ?p, (world ?s)\<lparr>registry := synced_registry\<rparr>)"
    by (simp add: syncing_getPlan_def)
  have c: "\<not> (customRateLimits ?p \<and> \<not> isCloud (config (world ?s)))"
    by (simp add: example_plan_def)
  have a': "auth (req ?s') = Some example_auth"
    by (simp add: example_state_def decorateRequest_def)
  have g': "?g' (orgId example_auth) (world ?s') =
           (Inr ?p', (world ?s')\<lparr>registry := synced_registry\<rparr>)"
    by (simp add: syncing_getPlan_def)
  have c': "customRateLimits ?p'" "\<not> isCloud (config (world ?s'))"
    by (simp_all add: example_plan_def example_state_def)
  have reg: "registry (world ?s) = example_registry" "registry (world ?s') = example_registry"
    by (simp_all add: example_state_def)
  have "\<not> customRateLimits ?p \<or> isCloud (config (world ?s))"
    using c by simp
  then have after: "registry (world (snd (onRequest ?g ?s))) = synced_registry"
    by (simp add: onRequest_merged [where getPlan = ?g, OF a g])
  note merged_run = C10_single_registry_snapshot [where getPlan = ?g and s = ?s]
  note override_run = C10_single_registry_snapshot [where getPlan = ?g' and s = ?s']
  from merged_run
  obtain rest where log: "new_calls ?g ?s = [GetConfig, GetRateLimiterConfig] @ rest"
      "GetRateLimiterConfig \<notin> set rest"
    by blast
  from merged_run a g c
  obtain out where out: "resolved ?g ?s = Some out"
    and each: "\<And>c. limit_of c out =
        (if plan_limit c ?p = None then limit_of c (registry (world ?s)) else plan_limit c ?p)"
    by blast
  have rd: "limit_of Read out = Some 9999"
    using each [of Read] by (simp add: plan_limit_def example_plan_def partial_plan_limits_def)
  have wr: "limit_of Write out = Some 60"
    using each [of Write] reg
    by (simp add: plan_limit_def example_plan_def partial_plan_limits_def example_registry_def)
  have sy: "limit_of Write synced_registry = Some (3::int)"
    by (simp add: synced_registry_def)
  from override_run a' g' c' reg
  have ov: "resolved ?g' ?s' = Some example_registry"
    by auto
  have ne: "example_registry \<noteq> synced_registry" "example_registry \<noteq> full_plan_limits"
    by (simp_all add: example_registry_def synced_registry_def full_plan_limits_def)
  from after log out rd wr sy c' ov ne show ?thesis
    by blast
qed


end
